theory Spec2Isabelle
  imports Main "HOL-Library.Word"
begin

section \<open>Tokens\<close>

text \<open>
  The enumeration \<open>TokenType\<close> is declared in a header that is not among the sources.
  Its enumerators are collected from their uses: the ones \<open>Parser\<close> accepts and the ones
  \<open>operator_string\<close> names. \<open>TokenType::plus\<close> is written \<open>TokenType_plus\<close>; the keyword
  enumerators carry a leading underscore in the source (\<open>TokenType::_int\<close>), which is dropped
  here.
\<close>

datatype TokenType =
    TokenType_identifier | TokenType_dec_integer
  | TokenType_unsigned | TokenType_signed | TokenType_char | TokenType_short
  | TokenType_int | TokenType_long | TokenType_void | TokenType_return
  | TokenType_plus | TokenType_increment | TokenType_plus_assign
  | TokenType_minus | TokenType_decrement | TokenType_minus_assign
  | TokenType_multiply | TokenType_multiply_assign
  | TokenType_divide | TokenType_divide_assign
  | TokenType_modulo | TokenType_modulo_assign
  | TokenType_assign | TokenType_equal | TokenType_noteq
  | TokenType_greater | TokenType_eqgreater | TokenType_less | TokenType_eqless
  | TokenType_logic_and | TokenType_logic_or
  | TokenType_bit_not | TokenType_bit_and | TokenType_bit_and_assign
  | TokenType_bit_or | TokenType_bit_or_assign
  | TokenType_bit_xor | TokenType_bit_xor_assign
  | TokenType_bit_lshift | TokenType_bit_lshift_assign
  | TokenType_bit_rshift | TokenType_bit_rshift_assign
  | TokenType_dot
  | TokenType_lbrace | TokenType_rbrace | TokenType_lparen | TokenType_rparen
  | TokenType_lbparen | TokenType_rbparen
  | TokenType_semicolon | TokenType_comma

text \<open>
  \<open>Token\<close>: the sources read the members \<open>type\<close> and \<open>data\<close>; the source location is
  kept as a line number.
\<close>

record Token =
  type :: TokenType
  data :: string
  line :: nat

section \<open>Abstract syntax tree\<close>

text \<open>
  Children are held through \<open>std::shared_ptr\<close>, which may be null: a child is an
  \<open>option\<close>, \<open>None\<close> being \<open>nullptr\<close>. The first argument of every node is the
  token of the base class (\<open>Expression(token)\<close>, \<open>Statement(token)\<close>, \<open>Type(token)\<close>).
\<close>

datatype Expression =
    Integer32 Token "32 word"
  | Identifier Token string
  | BinaryOperation Token TokenType "Expression option" "Expression option"
  | UnaryOperation Token TokenType "Expression option"
  | FunctionCallOperation Token "Expression option" "Expression option list"

type_synonym ExpressionPtr = "Expression option"

datatype Type =
    SimpleType Token string bool
  | StaticArray Token "Type option" ExpressionPtr
  | LValueReference Token "Type option"

type_synonym TypePtr = "Type option"

text \<open>
  \<open>FunctionDeclaration::parameter\<close> is a vector of \<open>VariableDeclaration\<close> objects, held by
  value: a list of statements built with the constructor \<open>VariableDeclaration\<close>. The third
  argument of \<open>Scope\<close> is the parent, for which the parser passes \<open>nullptr\<close>.
\<close>

datatype Statement =
    ExpressionStatement Token ExpressionPtr
  | ReturnStatement Token ExpressionPtr
  | VariableDeclaration Token TypePtr string ExpressionPtr
  | FunctionDeclaration Token TypePtr string "Statement list" "Statement option"
  | Scope Token "Statement option list" "Statement option"
  | Block Token "Statement option list"

type_synonym StatementPtr = "Statement option"

text \<open>The member \<open>token\<close> of a \<open>Type\<close> node.\<close>

fun Type_token :: "Type \<Rightarrow> Token" where
  "Type_token (SimpleType t _ _) = t"
| "Type_token (StaticArray t _ _) = t"
| "Type_token (LValueReference t _) = t"

section \<open>Parser state and results\<close>

datatype Error = Error Token string

text \<open>
  The members of \<open>Parser\<close>: \<open>input_\<close>, the iterator \<open>token_iter_\<close> as an index into
  \<open>input_\<close>, and the error list \<open>errors_\<close>, in the order the errors were added.
\<close>

record Parser =
  input :: "Token list"
  token_iter :: nat
  errors :: "Error list"

definition Parser_new :: "Token list \<Rightarrow> Parser" where
  "Parser_new ts = \<lparr>input = ts, token_iter = 0, errors = []\<rparr>"

text \<open>
  What a call can do other than return: dereference the iterator at or beyond
  \<open>input_.cend()\<close>, dereference a null pointer, or leave by an exception.
\<close>

datatype fault =
    OutOfBounds
  | NullPointerDereference
  | stoi_invalid_argument
  | stoi_out_of_range
  | map_at_out_of_range
  | Thrown Error

text \<open>
  A parsing method returns \<open>bool\<close> and writes its result through reference and pointer
  parameters only on the paths that return \<open>true\<close>. \<open>Return_true r p\<close> carries what was
  written, \<open>Return_false p\<close> leaves the caller's variables as they were; \<open>p\<close> is the parser
  afterwards. \<open>OutOfFuel\<close> is the bound on the depth of calls running out, which stands for
  a call that does not return.
\<close>

datatype 'a result = OutOfFuel | Abort fault | Return_false Parser | Return_true 'a Parser

text \<open>\<open>branch r t f\<close> is \<open>if (r) { t } else { f }\<close> for a call \<open>r\<close>.\<close>

definition branch ::
  "'a result \<Rightarrow> ('a \<Rightarrow> Parser \<Rightarrow> 'b result) \<Rightarrow> (Parser \<Rightarrow> 'b result) \<Rightarrow> 'b result" where
  "branch r t f =
     (case r of
        OutOfFuel \<Rightarrow> OutOfFuel
      | Abort x \<Rightarrow> Abort x
      | Return_true a p \<Rightarrow> t a p
      | Return_false p \<Rightarrow> f p)"

definition current_token :: "Parser \<Rightarrow> Token option" where
  "current_token p =
     (if token_iter p < length (input p) then Some (input p ! token_iter p) else None)"

text \<open>
  \<open>accept\<close> returns the consumed token, which is what \<open>previous_token()\<close> reads right after
  a successful call and what is stored through \<open>start_token\<close>.
\<close>

definition accept :: "TokenType \<Rightarrow> Parser \<Rightarrow> Token result" where
  "accept token_type p =
     (case current_token p of
        None \<Rightarrow> Abort OutOfBounds
      | Some t \<Rightarrow>
          if type t = token_type
          then Return_true t (p\<lparr>token_iter := token_iter p + 1\<rparr>)
          else Return_false p)"

text \<open>\<open>accept(a) || accept(b)\<close>\<close>

definition accept_or :: "TokenType \<Rightarrow> TokenType \<Rightarrow> Parser \<Rightarrow> Token result" where
  "accept_or a b p = branch (accept a p) Return_true (accept b)"

text \<open>
  \<open>errors_.add_error(Error(current_token(), msg)); return false;\<close> where \<open>msg\<close> may use
  \<open>current_token().data\<close>.
\<close>

definition add_error :: "Error \<Rightarrow> Parser \<Rightarrow> Parser" where
  "add_error e p = p\<lparr>errors := errors p @ [e]\<rparr>"

definition fail_at_current :: "(string \<Rightarrow> string) \<Rightarrow> Parser \<Rightarrow> 'a result" where
  "fail_at_current msg p =
     (case current_token p of
        None \<Rightarrow> Abort OutOfBounds
      | Some t \<Rightarrow> Return_false (add_error (Error t (msg (data t))) p))"

text \<open>A text between single quotes.\<close>

definition quoted :: "string \<Rightarrow> string" where
  "quoted s = CHR 0x27 # s @ [CHR 0x27]"

definition expected :: "string \<Rightarrow> string \<Rightarrow> string" where
  "expected what got = ''Expected '' @ what @ '', but got \"'' @ got @ ''\"''"

definition unexpected :: "string \<Rightarrow> string" where
  "unexpected got = ''Unexpected \"'' @ got @ ''\"''"

section \<open>\<open>std::stoi\<close>\<close>

definition isspace :: "char \<Rightarrow> bool" where
  "isspace c = (of_char c = (32::nat) \<or> (9 \<le> (of_char c :: nat) \<and> (of_char c :: nat) \<le> 13))"

definition isdigit :: "char \<Rightarrow> bool" where
  "isdigit c = (48 \<le> (of_char c :: nat) \<and> (of_char c :: nat) \<le> 57)"

definition digit_value :: "char \<Rightarrow> int" where
  "digit_value c = int (of_char c) - 48"

text \<open>
  Base 10: leading white space, an optional sign, then the longest run of digits;
  \<open>std::invalid_argument\<close> when there is no digit, \<open>std::out_of_range\<close> when the value is
  not an \<open>int\<close>.
\<close>

definition stoi :: "string \<Rightarrow> fault + int" where
  "stoi s =
     (let s1 = dropWhile isspace s;
          negative = (s1 \<noteq> [] \<and> hd s1 = CHR ''-'');
          s2 = (if s1 \<noteq> [] \<and> (hd s1 = CHR ''-'' \<or> hd s1 = CHR ''+'') then tl s1 else s1);
          ds = takeWhile isdigit s2;
          v = foldl (\<lambda>a c. 10 * a + digit_value c) 0 ds;
          r = (if negative then - v else v)
      in if ds = [] then Inl stoi_invalid_argument
         else if r < - (2 ^ 31) \<or> 2 ^ 31 - 1 < r then Inl stoi_out_of_range
         else Inr r)"

section \<open>Expressions\<close>

definition number :: "Parser \<Rightarrow> (ExpressionPtr \<times> Token) result" where
  "number p =
     branch (accept TokenType_dec_integer p)
       (\<lambda>number_start p1.
          case stoi (data number_start) of
            Inl x \<Rightarrow> Abort x
          | Inr i \<Rightarrow> Return_true (Some (Integer32 number_start (word_of_int i)), number_start) p1)
       Return_false"

text \<open>\<open>Parser::identifier\<close> (the name is a keyword of the theory language).\<close>

definition parse_identifier :: "Parser \<Rightarrow> (ExpressionPtr \<times> Token) result" where
  "parse_identifier p =
     branch (accept TokenType_identifier p)
       (\<lambda>identifier_start p1.
          Return_true (Some (Identifier identifier_start (data identifier_start)), identifier_start) p1)
       Return_false"

definition atom :: "Parser \<Rightarrow> (ExpressionPtr \<times> Token) result" where
  "atom p = branch (number p) Return_true parse_identifier"

text \<open>
  The tail of \<open>assign\<close>: the last operand is the innermost right-hand side, the others are
  wrapped around it in reverse order, each node with the token \<open>assign_start\<close>.
\<close>

definition assign_fold :: "Token \<Rightarrow> ExpressionPtr list \<Rightarrow> ExpressionPtr" where
  "assign_fold assign_start operands =
     foldl (\<lambda>result operand.
              Some (BinaryOperation assign_start TokenType_assign operand result))
       (last operands) (rev (butlast operands))"

text \<open>
  The end of the first branch of \<open>paren\<close>, after \<open>expr(expression)\<close>, whose result is not
  looked at: \<open>expression\<close> is what \<open>expr\<close> stored, or null.
\<close>

definition paren_close :: "Token \<Rightarrow> ExpressionPtr \<Rightarrow> Parser \<Rightarrow> (ExpressionPtr \<times> Token) result" where
  "paren_close paren_start expression p =
     branch (accept TokenType_rparen p)
       (\<lambda>_ p1. Return_true (expression, paren_start) p1)
       (fail_at_current (expected (quoted '')'')))"

text \<open>
  The first argument of every recursive function is the fuel: a bound on the depth of
  calls, one less in each call and in each iteration of a loop. The loops are the
  functions \<open>_loop\<close>; \<open>func_call_args\<close> is the inner \<open>while (true)\<close> of \<open>func_call\<close>.
\<close>

function expr :: "nat \<Rightarrow> Parser \<Rightarrow> (ExpressionPtr \<times> Token) result"
and assign :: "nat \<Rightarrow> Parser \<Rightarrow> (ExpressionPtr \<times> Token) result"
and assign_loop ::
  "nat \<Rightarrow> Token \<Rightarrow> ExpressionPtr list \<Rightarrow> Parser \<Rightarrow> (ExpressionPtr \<times> Token) result"
and addsub :: "nat \<Rightarrow> Parser \<Rightarrow> (ExpressionPtr \<times> Token) result"
and addsub_loop ::
  "nat \<Rightarrow> Token \<Rightarrow> ExpressionPtr \<Rightarrow> Parser \<Rightarrow> (ExpressionPtr \<times> Token) result"
and muldiv :: "nat \<Rightarrow> Parser \<Rightarrow> (ExpressionPtr \<times> Token) result"
and muldiv_loop ::
  "nat \<Rightarrow> Token \<Rightarrow> ExpressionPtr \<Rightarrow> Parser \<Rightarrow> (ExpressionPtr \<times> Token) result"
and unary_plusminus :: "nat \<Rightarrow> Parser \<Rightarrow> (ExpressionPtr \<times> Token) result"
and func_call :: "nat \<Rightarrow> Parser \<Rightarrow> (ExpressionPtr \<times> Token) result"
and func_call_loop ::
  "nat \<Rightarrow> Token \<Rightarrow> ExpressionPtr \<Rightarrow> Parser \<Rightarrow> (ExpressionPtr \<times> Token) result"
and func_call_args ::
  "nat \<Rightarrow> Token \<Rightarrow> ExpressionPtr \<Rightarrow> ExpressionPtr list \<Rightarrow> Parser
     \<Rightarrow> (ExpressionPtr \<times> Token) result"
and paren :: "nat \<Rightarrow> Parser \<Rightarrow> (ExpressionPtr \<times> Token) result"
where
  "expr 0 p = OutOfFuel"
| "expr (Suc n) p = assign n p"

| "assign 0 p = OutOfFuel"
| "assign (Suc n) p =
     branch (addsub n p)
       (\<lambda>(lhs, assign_start) p1. assign_loop n assign_start [lhs] p1)
       Return_false"

| "assign_loop 0 assign_start operands p = OutOfFuel"
| "assign_loop (Suc n) assign_start operands p =
     branch (accept TokenType_assign p)
       (\<lambda>_ p1.
          branch (addsub n p1)
            (\<lambda>(rhs, _) p2. assign_loop n assign_start (operands @ [rhs]) p2)
            (fail_at_current (expected ''expression'')))
       (Return_true (assign_fold assign_start operands, assign_start))"

| "addsub 0 p = OutOfFuel"
| "addsub (Suc n) p =
     branch (muldiv n p)
       (\<lambda>(lhs, addsub_start) p1. addsub_loop n addsub_start lhs p1)
       Return_false"

| "addsub_loop 0 addsub_start lhs p = OutOfFuel"
| "addsub_loop (Suc n) addsub_start lhs p =
     branch (accept_or TokenType_plus TokenType_minus p)
       (\<lambda>op_token p1.
          branch (muldiv n p1)
            (\<lambda>(rhs, _) p2.
               addsub_loop n addsub_start
                 (Some (BinaryOperation addsub_start (type op_token) lhs rhs)) p2)
            (fail_at_current (expected ''expression'')))
       (Return_true (lhs, addsub_start))"

| "muldiv 0 p = OutOfFuel"
| "muldiv (Suc n) p =
     branch (unary_plusminus n p)
       (\<lambda>(lhs, muldiv_start) p1. muldiv_loop n muldiv_start lhs p1)
       Return_false"

| "muldiv_loop 0 muldiv_start lhs p = OutOfFuel"
| "muldiv_loop (Suc n) muldiv_start lhs p =
     branch (accept_or TokenType_multiply TokenType_divide p)
       (\<lambda>op_token p1.
          branch (unary_plusminus n p1)
            (\<lambda>(rhs, _) p2.
               muldiv_loop n muldiv_start
                 (Some (BinaryOperation muldiv_start (type op_token) lhs rhs)) p2)
            (fail_at_current (expected ''expression'')))
       (Return_true (lhs, muldiv_start))"

| "unary_plusminus 0 p = OutOfFuel"
| "unary_plusminus (Suc n) p =
     branch (accept_or TokenType_plus TokenType_minus p)
       (\<lambda>plusminus_start p1.
          branch (func_call n p1)
            (\<lambda>(rhs, _) p2.
               Return_true
                 (Some (UnaryOperation plusminus_start (type plusminus_start) rhs),
                  plusminus_start) p2)
            (fail_at_current (expected ''expression'')))
       (\<lambda>p1. branch (func_call n p1) Return_true Return_false)"

| "func_call 0 p = OutOfFuel"
| "func_call (Suc n) p =
     branch (paren n p)
       (\<lambda>(func_expr, func_call_start) p1. func_call_loop n func_call_start func_expr p1)
       Return_false"

| "func_call_loop 0 func_call_start func_expr p = OutOfFuel"
| "func_call_loop (Suc n) func_call_start func_expr p =
     branch (accept TokenType_lparen p)
       (\<lambda>_ p1. func_call_args n func_call_start func_expr [] p1)
       (Return_true (func_expr, func_call_start))"

| "func_call_args 0 func_call_start func_expr arg p = OutOfFuel"
| "func_call_args (Suc n) func_call_start func_expr arg p =
     branch (expr n p)
       (\<lambda>(a_arg, _) p1.
          branch (accept TokenType_rparen p1)
            (\<lambda>_ p2.
               func_call_loop n func_call_start
                 (Some (FunctionCallOperation func_call_start func_expr (arg @ [a_arg]))) p2)
            (\<lambda>p2.
               branch (accept TokenType_comma p2)
                 (\<lambda>_ p3. func_call_args n func_call_start func_expr (arg @ [a_arg]) p3)
                 (fail_at_current (expected (quoted '','' @ '' or '' @ quoted '';'')))))
       (\<lambda>p1.
          branch (accept TokenType_rparen p1)
            (\<lambda>_ p2.
               func_call_loop n func_call_start
                 (Some (FunctionCallOperation func_call_start func_expr arg)) p2)
            (\<lambda>p2. func_call_args n func_call_start func_expr arg p2))"

| "paren 0 p = OutOfFuel"
| "paren (Suc n) p =
     branch (accept TokenType_lparen p)
       (\<lambda>paren_start p1.
          branch (expr n p1)
            (\<lambda>(expression, _) p2. paren_close paren_start expression p2)
            (\<lambda>p2. paren_close paren_start None p2))
       (\<lambda>p1. branch (atom p1) Return_true Return_false)"
  by pat_completeness auto

termination
  by (relation "measure (case_sum (case_sum (case_sum fst (case_sum fst fst)) (case_sum fst (case_sum fst fst))) (case_sum (case_sum fst (case_sum fst fst)) (case_sum fst (case_sum fst fst))))") simp_all

section \<open>Types\<close>

text \<open>
  The constructor \<open>SimpleType(token, identifier)\<close> without \<open>is_unsigned\<close> is not among the
  sources; the member's documentation gives \<open>false\<close> for a type that is signed or has no
  signedness.
\<close>

definition simple_type :: "Parser \<Rightarrow> (TypePtr \<times> Token) result" where
  "simple_type p =
     branch (accept TokenType_unsigned p)
       (\<lambda>simple_type_start p1.
          branch (accept TokenType_char p1) (\<lambda>_. Return_false)
            (\<lambda>p2. branch (accept TokenType_short p2) (\<lambda>_. Return_false)
               (\<lambda>p3. branch (accept TokenType_int p3)
                  (\<lambda>_. Return_true
                          (Some (SimpleType simple_type_start ''int'' True), simple_type_start))
                  (\<lambda>p4. branch (accept TokenType_long p4) (\<lambda>_. Return_false)
                     (Return_true
                        (Some (SimpleType simple_type_start ''int'' True), simple_type_start))))))
       (\<lambda>p1.
          branch (accept TokenType_signed p1)
            (\<lambda>simple_type_start p2.
               branch (accept TokenType_char p2) (\<lambda>_. Return_false)
                 (\<lambda>p3. branch (accept TokenType_short p3) (\<lambda>_. Return_false)
                    (\<lambda>p4. branch (accept TokenType_int p4)
                       (\<lambda>_. Return_true
                               (Some (SimpleType simple_type_start ''int'' False),
                                simple_type_start))
                       (\<lambda>p5. branch (accept TokenType_long p5) (\<lambda>_. Return_false)
                          (Return_true
                             (Some (SimpleType simple_type_start ''int'' False),
                              simple_type_start))))))
            (\<lambda>p2.
               branch (accept TokenType_char p2) (\<lambda>_. Return_false)
                 (\<lambda>p3. branch (accept TokenType_short p3) (\<lambda>_. Return_false)
                    (\<lambda>p4. branch (accept TokenType_int p4)
                       (\<lambda>simple_type_start.
                          Return_true
                            (Some (SimpleType simple_type_start ''int'' False),
                             simple_type_start))
                       (\<lambda>p5. branch (accept TokenType_long p5) (\<lambda>_. Return_false)
                          (\<lambda>p6. branch (accept TokenType_void p6)
                             (\<lambda>simple_type_start.
                                Return_true
                                  (Some (SimpleType simple_type_start ''void'' False),
                                   simple_type_start))
                             Return_false))))))"

definition reference_type :: "Parser \<Rightarrow> (TypePtr \<times> Token) result" where
  "reference_type p =
     branch (simple_type p)
       (\<lambda>(type, reference_start_token) p1.
          branch (accept TokenType_bit_and p1)
            (\<lambda>_. Return_true
                    (Some (LValueReference reference_start_token type), reference_start_token))
            (Return_true (type, reference_start_token)))
       Return_false"

text \<open>
  The body of \<open>array_type\<close> from the label \<open>loop\<close> on. When \<open>]\<close> is missing after the
  length, control leaves both \<open>if\<close>s and reaches the final \<open>return false\<close>, with no error
  added.
\<close>

fun array_type_loop :: "nat \<Rightarrow> Token \<Rightarrow> TypePtr \<Rightarrow> Parser \<Rightarrow> (TypePtr \<times> Token) result" where
  "array_type_loop 0 array_start_token lhs_array_type p = OutOfFuel"
| "array_type_loop (Suc n) array_start_token lhs_array_type p =
     branch (expr n p)
       (\<lambda>(length, _) p1.
          branch (accept TokenType_rbparen p1)
            (\<lambda>_ p2.
               branch (accept TokenType_lbparen p2)
                 (\<lambda>_ p3.
                    array_type_loop n array_start_token
                      (Some (StaticArray array_start_token lhs_array_type length)) p3)
                 (Return_true
                    (Some (StaticArray array_start_token lhs_array_type length),
                     array_start_token)))
            Return_false)
       (fail_at_current (\<lambda>_. ''TODO''))"

definition array_type :: "nat \<Rightarrow> Parser \<Rightarrow> (TypePtr \<times> Token) result" where
  "array_type n p =
     branch (reference_type p)
       (\<lambda>(type, array_start_token) p1.
          branch (accept TokenType_lbparen p1)
            (\<lambda>_ p2. array_type_loop n array_start_token type p2)
            (Return_true (type, array_start_token)))
       Return_false"

text \<open>\<open>Parser::type\<close> (\<open>type\<close> is the member of \<open>Token\<close> here).\<close>

definition parse_type :: "nat \<Rightarrow> Parser \<Rightarrow> (TypePtr \<times> Token) result" where
  "parse_type n p = array_type n p"

section \<open>Statements\<close>

definition expr_stmt :: "nat \<Rightarrow> Parser \<Rightarrow> (StatementPtr \<times> Token) result" where
  "expr_stmt n p =
     branch (expr n p)
       (\<lambda>(expression, expr_stmt_start) p1.
          branch (accept TokenType_semicolon p1)
            (\<lambda>_. Return_true
                    (Some (ExpressionStatement expr_stmt_start expression), expr_stmt_start))
            (fail_at_current (expected (quoted '';''))))
       Return_false"

text \<open>
  The end of the first branch of \<open>return_stmt\<close>, after \<open>expr(return_expr)\<close>, whose result is
  not looked at.
\<close>

definition return_stmt_close ::
  "Token \<Rightarrow> ExpressionPtr \<Rightarrow> Parser \<Rightarrow> (StatementPtr \<times> Token) result" where
  "return_stmt_close return_start return_expr p =
     branch (accept TokenType_semicolon p)
       (\<lambda>_. Return_true (Some (ReturnStatement return_start return_expr), return_start))
       (fail_at_current (expected (quoted '';'')))"

definition return_stmt :: "nat \<Rightarrow> Parser \<Rightarrow> (StatementPtr \<times> Token) result" where
  "return_stmt n p =
     branch (accept TokenType_return p)
       (\<lambda>return_start p1.
          branch (expr n p1)
            (\<lambda>(return_expr, _) p2. return_stmt_close return_start return_expr p2)
            (\<lambda>p2. return_stmt_close return_start None p2))
       (\<lambda>p1. branch (expr_stmt n p1) Return_true Return_false)"

text \<open>
  A local \<open>Token\<close> is default-constructed and keeps that value unless a callee writes
  through the pointer it is given. The value of a default-constructed \<open>Token\<close> is the
  parameter \<open>dflt\<close>, the declaration of \<open>Token\<close> not being among the sources.

  \<open>var_decl\<close> writes through \<open>start_token\<close> on every path that returns \<open>true\<close> but the
  one through \<open>func_decl\<close>, which it calls without a \<open>start_token\<close>: its second result is
  \<open>None\<close> there. The constructor \<open>VariableDeclaration(token, type, identifier)\<close> is not
  among the sources; it is taken to leave \<open>expression\<close> null.
\<close>

function scope :: "nat \<Rightarrow> Token \<Rightarrow> Parser \<Rightarrow> (StatementPtr \<times> Token) result"
and scope_loop ::
  "nat \<Rightarrow> Token \<Rightarrow> Token \<Rightarrow> StatementPtr list \<Rightarrow> Parser \<Rightarrow> (StatementPtr \<times> Token) result"
and var_decl :: "nat \<Rightarrow> Token \<Rightarrow> Parser \<Rightarrow> (StatementPtr \<times> Token option) result"
and func_decl ::
  "nat \<Rightarrow> Token \<Rightarrow> Token \<Rightarrow> TypePtr \<Rightarrow> string \<Rightarrow> Parser \<Rightarrow> (StatementPtr \<times> Token) result"
and func_decl_loop ::
  "nat \<Rightarrow> Token \<Rightarrow> Token \<Rightarrow> TypePtr \<Rightarrow> string \<Rightarrow> Statement list \<Rightarrow> Parser
     \<Rightarrow> (StatementPtr \<times> Token) result"
and func_decl_body ::
  "nat \<Rightarrow> Token \<Rightarrow> Token \<Rightarrow> TypePtr \<Rightarrow> string \<Rightarrow> Statement list \<Rightarrow> Parser
     \<Rightarrow> (StatementPtr \<times> Token) result"
where
  "scope 0 dflt p = OutOfFuel"
| "scope (Suc n) dflt p =
     branch (accept TokenType_lbrace p)
       (\<lambda>scope_start p1. scope_loop n dflt scope_start [] p1)
       (\<lambda>p1.
          branch (var_decl n dflt p1)
            (\<lambda>(statement, written) p2.
               let var_decl_start = (case written of None \<Rightarrow> dflt | Some t \<Rightarrow> t)
               in Return_true (statement, var_decl_start) p2)
            Return_false)"

| "scope_loop 0 dflt scope_start statements p = OutOfFuel"
| "scope_loop (Suc n) dflt scope_start statements p =
     branch (var_decl n dflt p)
       (\<lambda>(statement, _) p1. scope_loop n dflt scope_start (statements @ [statement]) p1)
       (\<lambda>p1.
          branch (accept TokenType_rbrace p1)
            (\<lambda>_. Return_true (Some (Scope scope_start statements None), scope_start))
            (fail_at_current (expected (quoted ''}''))))"

| "var_decl 0 dflt p = OutOfFuel"
| "var_decl (Suc n) dflt p =
     branch (parse_type n p)
       (\<lambda>(type_expr, var_decl_start) p1.
          branch (accept TokenType_identifier p1)
            (\<lambda>name_token p2.
               let name = data name_token in
               branch (accept TokenType_assign p2)
                 (\<lambda>_ p3.
                    branch (expr n p3)
                      (\<lambda>(expression, _) p4.
                         branch (accept TokenType_semicolon p4)
                           (\<lambda>_. Return_true
                                   (Some (VariableDeclaration var_decl_start type_expr name
                                            expression),
                                    Some var_decl_start))
                           (fail_at_current (expected (quoted '';''))))
                      (fail_at_current (expected ''expression'')))
                 (\<lambda>p3.
                    branch (accept TokenType_semicolon p3)
                      (\<lambda>_. Return_true
                              (Some (VariableDeclaration var_decl_start type_expr name None),
                               Some var_decl_start))
                      (\<lambda>p4.
                         branch (accept TokenType_lparen p4)
                           (\<lambda>_ p5.
                              branch (func_decl n dflt var_decl_start type_expr name p5)
                                (\<lambda>(out, _). Return_true (out, None))
                                Return_false)
                           (fail_at_current (expected ''identifier'')))))
            (fail_at_current (expected ''identifier'')))
       (\<lambda>p1.
          branch (return_stmt n p1)
            (\<lambda>(statement, return_start). Return_true (statement, Some return_start))
            Return_false)"

| "func_decl 0 dflt var_decl_start_token return_type identifier p = OutOfFuel"
| "func_decl (Suc n) dflt var_decl_start_token return_type identifier p =
     func_decl_loop n dflt var_decl_start_token return_type identifier [] p"

| "func_decl_loop 0 dflt var_decl_start_token return_type identifier param_list p = OutOfFuel"
| "func_decl_loop (Suc n) dflt var_decl_start_token return_type identifier param_list p =
     branch (parse_type n p)
       (\<lambda>(param_type, _) p1.
          case param_type of
            None \<Rightarrow> Abort NullPointerDereference
          | Some ty \<Rightarrow>
              if type (Type_token ty) = TokenType_void
              then
                branch (accept TokenType_rparen p1)
                  (\<lambda>_ p2.
                     func_decl_body n dflt var_decl_start_token return_type identifier
                       param_list p2)
                  (fail_at_current
                     (\<lambda>_. ''Unexpected additional parameter in void paramter function''))
              else
                branch (accept TokenType_identifier p1)
                  (\<lambda>name_token p2.
                     let param = VariableDeclaration var_decl_start_token param_type
                                   (data name_token) None
                     in branch (accept TokenType_comma p2)
                          (\<lambda>_ p3.
                             func_decl_loop n dflt var_decl_start_token return_type identifier
                               (param_list @ [param]) p3)
                          (\<lambda>p3.
                             func_decl_loop n dflt var_decl_start_token return_type identifier
                               (param_list @ [param]) p3))
                  (\<lambda>p2.
                     branch (accept TokenType_comma p2)
                       (\<lambda>_ p3.
                          func_decl_loop n dflt var_decl_start_token return_type identifier
                            (param_list
                               @ [VariableDeclaration var_decl_start_token param_type [] None])
                            p3)
                       (\<lambda>p3.
                          func_decl_loop n dflt var_decl_start_token return_type identifier
                            param_list p3)))
       (\<lambda>p1.
          branch (accept TokenType_rparen p1)
            (\<lambda>_ p2.
               func_decl_body n dflt var_decl_start_token return_type identifier param_list p2)
            (fail_at_current unexpected))"

| "func_decl_body 0 dflt var_decl_start_token return_type identifier param_list p = OutOfFuel"
| "func_decl_body (Suc n) dflt var_decl_start_token return_type identifier param_list p =
     branch (scope n dflt p)
       (\<lambda>(body, _).
          Return_true
            (Some (FunctionDeclaration var_decl_start_token return_type identifier param_list
                     body),
             var_decl_start_token))
       (fail_at_current unexpected)"
  by pat_completeness auto

termination
  by (relation "measure (case_sum (case_sum fst (case_sum fst fst)) (case_sum fst (case_sum fst fst)))") simp_all

text \<open>
  The loop of \<open>block\<close>: \<open>block_start\<close> is written by every call of \<open>scope\<close> that returns
  \<open>true\<close>, so it ends as the start the last of them reported.
\<close>

fun block_loop ::
  "nat \<Rightarrow> Token \<Rightarrow> Token \<Rightarrow> StatementPtr list \<Rightarrow> Parser \<Rightarrow> (StatementPtr \<times> Token) result" where
  "block_loop 0 dflt block_start statements p = OutOfFuel"
| "block_loop (Suc n) dflt block_start statements p =
     branch (scope n dflt p)
       (\<lambda>(statement, start) p1. block_loop n dflt start (statements @ [statement]) p1)
       (\<lambda>p1.
          if errors p1 = []
          then Return_true (Some (Block block_start statements), block_start) p1
          else Return_false p1)"

definition block :: "nat \<Rightarrow> Token \<Rightarrow> Parser \<Rightarrow> (StatementPtr \<times> Token) result" where
  "block n dflt p = block_loop n dflt dflt [] p"

definition parse :: "nat \<Rightarrow> Token \<Rightarrow> Parser \<Rightarrow> StatementPtr result" where
  "parse n dflt p = branch (block n dflt p) (\<lambda>(output, _). Return_true output) Return_false"

section \<open>Code generation\<close>

text \<open>
  The builder \<open>LLVM::builder\<close> and the wrapper \<open>LLVM::Value\<close> are external. A value is
  the call of the builder that returned it; \<open>null_Value\<close> is a wrapper around a null
  pointer and \<open>Opaque\<close> a value that comes from elsewhere. The state of the builder is the
  list of the instructions created so far, in the order of their creation; \<open>getInt32\<close> and
  \<open>getFalse\<close> are constants and create no instruction.
\<close>

datatype LLVM_Value =
    null_Value
  | Opaque nat
  | getInt32 "32 word"
  | getFalse
  | CreateAdd LLVM_Value LLVM_Value
  | CreateSub LLVM_Value LLVM_Value
  | CreateMul LLVM_Value LLVM_Value
  | CreateSDiv LLVM_Value LLVM_Value
  | CreateCall LLVM_Value "LLVM_Value list"
  | CreateRet LLVM_Value

type_synonym builder = "LLVM_Value list"

definition create :: "LLVM_Value \<Rightarrow> builder \<Rightarrow> fault + LLVM_Value \<times> builder" where
  "create v b = Inr (v, b @ [v])"

text \<open>
  \<open>Identifier::code_gen\<close> is not among the sources: it is the parameter \<open>ident\<close>, given
  the token and the name of the node.
\<close>

fun code_gen ::
  "(Token \<Rightarrow> string \<Rightarrow> builder \<Rightarrow> fault + LLVM_Value \<times> builder) \<Rightarrow> Expression \<Rightarrow> builder
     \<Rightarrow> fault + LLVM_Value \<times> builder"
and code_gen_ptr ::
  "(Token \<Rightarrow> string \<Rightarrow> builder \<Rightarrow> fault + LLVM_Value \<times> builder) \<Rightarrow> ExpressionPtr \<Rightarrow> builder
     \<Rightarrow> fault + LLVM_Value \<times> builder"
and code_gen_args ::
  "(Token \<Rightarrow> string \<Rightarrow> builder \<Rightarrow> fault + LLVM_Value \<times> builder) \<Rightarrow> ExpressionPtr list
     \<Rightarrow> builder \<Rightarrow> fault + LLVM_Value list \<times> builder"
where
  "code_gen ident (Integer32 token value) b = Inr (getInt32 value, b)"
| "code_gen ident (Identifier token name) b = ident token name b"
| "code_gen ident (BinaryOperation token op lhs rhs) b =
     (case code_gen_ptr ident lhs b of
        Inl x \<Rightarrow> Inl x
      | Inr (lhs_value, b1) \<Rightarrow>
          (case code_gen_ptr ident rhs b1 of
             Inl x \<Rightarrow> Inl x
           | Inr (rhs_value, b2) \<Rightarrow>
               if op = TokenType_plus then create (CreateAdd lhs_value rhs_value) b2
               else if op = TokenType_minus then create (CreateSub lhs_value rhs_value) b2
               else if op = TokenType_multiply then create (CreateMul lhs_value rhs_value) b2
               else if op = TokenType_divide then create (CreateSDiv lhs_value rhs_value) b2
               else Inr (getFalse, b2)))"
| "code_gen ident (UnaryOperation token op rhs) b =
     (case code_gen_ptr ident rhs b of
        Inl x \<Rightarrow> Inl x
      | Inr (rhs_value, b1) \<Rightarrow>
          if op = TokenType_plus then create (CreateMul (getInt32 1) rhs_value) b1
          else if op = TokenType_minus then create (CreateMul (getInt32 (- 1)) rhs_value) b1
          else Inr (getFalse, b1))"
| "code_gen ident (FunctionCallOperation token func_expr argument) b =
     (case code_gen_ptr ident func_expr b of
        Inl x \<Rightarrow> Inl x
      | Inr (function, b1) \<Rightarrow>
          if function \<noteq> null_Value
          then (case code_gen_args ident argument b1 of
                  Inl x \<Rightarrow> Inl x
                | Inr (arg_real, b2) \<Rightarrow> create (CreateCall function arg_real) b2)
          else Inl (Thrown (Error token ''Expected callable function expression'')))"

| "code_gen_ptr ident None b = Inl NullPointerDereference"
| "code_gen_ptr ident (Some e) b = code_gen ident e b"

| "code_gen_args ident [] b = Inr ([], b)"
| "code_gen_args ident (arg # rest) b =
     (case code_gen_ptr ident arg b of
        Inl x \<Rightarrow> Inl x
      | Inr (v, b1) \<Rightarrow>
          (case code_gen_args ident rest b1 of
             Inl x \<Rightarrow> Inl x
           | Inr (vs, b2) \<Rightarrow> Inr (v # vs, b2)))"

text \<open>\<open>ReturnStatement::code_gen\<close>, on the member \<open>return_expr\<close>.\<close>

definition ReturnStatement_code_gen ::
  "(Token \<Rightarrow> string \<Rightarrow> builder \<Rightarrow> fault + LLVM_Value \<times> builder) \<Rightarrow> ExpressionPtr \<Rightarrow> builder
     \<Rightarrow> fault + LLVM_Value \<times> builder" where
  "ReturnStatement_code_gen ident return_expr b =
     (case code_gen_ptr ident return_expr b of
        Inl x \<Rightarrow> Inl x
      | Inr (v, b1) \<Rightarrow> create (CreateRet v) b1)"

section \<open>Tree rendering\<close>

fun operator_string :: "TokenType \<Rightarrow> string" where
  "operator_string TokenType_plus = ''+''"
| "operator_string TokenType_increment = ''++''"
| "operator_string TokenType_plus_assign = ''+=''"
| "operator_string TokenType_minus = ''-''"
| "operator_string TokenType_decrement = ''--''"
| "operator_string TokenType_minus_assign = ''-=''"
| "operator_string TokenType_multiply = ''*''"
| "operator_string TokenType_multiply_assign = ''*=''"
| "operator_string TokenType_divide = ''/''"
| "operator_string TokenType_divide_assign = ''/=''"
| "operator_string TokenType_modulo = ''%''"
| "operator_string TokenType_modulo_assign = ''%=''"
| "operator_string TokenType_assign = ''=''"
| "operator_string TokenType_equal = ''==''"
| "operator_string TokenType_noteq = ''!=''"
| "operator_string TokenType_greater = ''>''"
| "operator_string TokenType_eqgreater = ''>=''"
| "operator_string TokenType_less = ''<''"
| "operator_string TokenType_eqless = ''<=''"
| "operator_string TokenType_logic_and = ''&&''"
| "operator_string TokenType_logic_or = ''||''"
| "operator_string TokenType_bit_not = ''~''"
| "operator_string TokenType_bit_and = ''&''"
| "operator_string TokenType_bit_and_assign = ''&=''"
| "operator_string TokenType_bit_or = ''|''"
| "operator_string TokenType_bit_or_assign = ''|=''"
| "operator_string TokenType_bit_xor = ''^''"
| "operator_string TokenType_bit_xor_assign = ''^=''"
| "operator_string TokenType_bit_lshift = ''<<''"
| "operator_string TokenType_bit_lshift_assign = ''<<=''"
| "operator_string TokenType_bit_rshift = ''>>''"
| "operator_string TokenType_bit_rshift_assign = ''>>=''"
| "operator_string TokenType_dot = ''.''"
| "operator_string _ = []"

text \<open>\<open>std::to_string\<close> on an \<open>int\<close>.\<close>

fun decimal :: "nat \<Rightarrow> string" where
  "decimal n =
     (if n < 10 then [char_of (48 + n)] else decimal (n div 10) @ [char_of (48 + n mod 10)])"

declare decimal.simps [simp del]

definition to_string :: "int \<Rightarrow> string" where
  "to_string i = (if i < 0 then CHR ''-'' # decimal (nat (- i)) else decimal (nat i))"

text \<open>
  What the rendering uses and the sources do not define: \<open>tree_prefix\<close>, the map
  \<open>token_map\<close>, read with \<open>at\<close>, and \<open>Identifier::tree_gen\<close>.
\<close>

record externals =
  tree_prefix :: "nat \<Rightarrow> string"
  token_map :: "TokenType \<Rightarrow> string option"
  Identifier_tree_gen :: "Token \<Rightarrow> string \<Rightarrow> nat \<Rightarrow> fault + string"

definition newline :: string where
  "newline = [CHR 0x0A]"

fun tree_gen :: "externals \<Rightarrow> Expression \<Rightarrow> nat \<Rightarrow> fault + string"
and tree_gen_ptr :: "externals \<Rightarrow> ExpressionPtr \<Rightarrow> nat \<Rightarrow> fault + string"
and tree_gen_args :: "externals \<Rightarrow> ExpressionPtr list \<Rightarrow> nat \<Rightarrow> fault + string"
where
  "tree_gen X (Integer32 token value) depth =
     Inr (tree_prefix X depth @ ''Integer32('' @ to_string (sint value) @ '')'')"
| "tree_gen X (Identifier token name) depth = Identifier_tree_gen X token name depth"
| "tree_gen X (BinaryOperation token op lhs rhs) depth =
     (case tree_gen_ptr X lhs (depth + 1 + 1) of
        Inl x \<Rightarrow> Inl x
      | Inr l \<Rightarrow>
          (case tree_gen_ptr X rhs (depth + 1 + 1) of
             Inl x \<Rightarrow> Inl x
           | Inr r \<Rightarrow>
               (case token_map X op of
                  None \<Rightarrow> Inl map_at_out_of_range
                | Some name \<Rightarrow>
                    Inr (tree_prefix X depth @ ''BinaryOperation:'' @ newline
                         @ tree_prefix X (depth + 1) @ ''lhs:'' @ newline
                         @ l @ newline
                         @ tree_prefix X (depth + 1) @ ''rhs:'' @ newline
                         @ r @ newline
                         @ tree_prefix X (depth + 1) @ ''op:'' @ newline
                         @ tree_prefix X (depth + 1 + 1) @ operator_string op
                         @ ''('' @ name @ '')''))))"
| "tree_gen X (UnaryOperation token op rhs) depth =
     (case tree_gen_ptr X rhs (depth + 1 + 1) of
        Inl x \<Rightarrow> Inl x
      | Inr r \<Rightarrow>
          (case token_map X op of
             None \<Rightarrow> Inl map_at_out_of_range
           | Some name \<Rightarrow>
               Inr (tree_prefix X depth @ ''UnaryOperation:'' @ newline
                    @ tree_prefix X (depth + 1) @ ''rhs:'' @ newline
                    @ r @ newline
                    @ tree_prefix X (depth + 1) @ ''op:'' @ newline
                    @ tree_prefix X (depth + 1 + 1) @ operator_string op
                    @ ''('' @ name @ '')'')))"
| "tree_gen X (FunctionCallOperation token func_expr argument) depth =
     (case tree_gen_ptr X func_expr (depth + 1 + 1) of
        Inl x \<Rightarrow> Inl x
      | Inr f \<Rightarrow>
          (case tree_gen_args X argument (depth + 1 + 1) of
             Inl x \<Rightarrow> Inl x
           | Inr args \<Rightarrow>
               Inr (tree_prefix X depth @ ''FunctionCallOperation:'' @ newline
                    @ tree_prefix X (depth + 1) @ ''func_expr:'' @ newline
                    @ f @ newline
                    @ tree_prefix X (depth + 1) @ ''argument:'' @ newline
                    @ args)))"

| "tree_gen_ptr X None depth = Inl NullPointerDereference"
| "tree_gen_ptr X (Some e) depth = tree_gen X e depth"

| "tree_gen_args X [] depth = Inr []"
| "tree_gen_args X (arg # rest) depth =
     (case tree_gen_ptr X arg depth of
        Inl x \<Rightarrow> Inl x
      | Inr a \<Rightarrow>
          (case tree_gen_args X rest depth of
             Inl x \<Rightarrow> Inl x
           | Inr r \<Rightarrow> Inr (a @ r)))"

text \<open>\<open>ReturnStatement::tree_gen\<close>, on the member \<open>return_expr\<close>.\<close>

definition ReturnStatement_tree_gen :: "externals \<Rightarrow> ExpressionPtr \<Rightarrow> nat \<Rightarrow> fault + string" where
  "ReturnStatement_tree_gen X return_expr depth =
     (case tree_gen_ptr X return_expr (depth + 1) of
        Inl x \<Rightarrow> Inl x
      | Inr r \<Rightarrow> Inr (tree_prefix X depth @ ''ReturnStatement:'' @ newline @ r))"

section \<open>Notation for the statements below\<close>

abbreviation mk_Token :: "TokenType \<Rightarrow> string \<Rightarrow> nat \<Rightarrow> Token" where
  "mk_Token ty s l \<equiv> \<lparr>type = ty, data = s, line = l\<rparr>"

text \<open>
  The token types with which some production begins: \<open>{\<close> for \<open>scope\<close>, the keywords of
  \<open>simple_type\<close>, \<open>return\<close>, the signs of \<open>unary_plusminus\<close>, \<open>(\<close> for \<open>paren\<close> and the two
  atoms. At any other token \<open>scope\<close> returns \<open>false\<close> with the parser unchanged.
\<close>

definition starts_scope :: "TokenType \<Rightarrow> bool" where
  "starts_scope tt \<longleftrightarrow>
     tt \<in> {TokenType_lbrace, TokenType_unsigned, TokenType_signed, TokenType_char,
           TokenType_short, TokenType_int, TokenType_long, TokenType_void, TokenType_return,
           TokenType_plus, TokenType_minus, TokenType_lparen, TokenType_dec_integer,
           TokenType_identifier}"

text \<open>
  The token types with which an expression goes on after an operand: \<open>(\<close> for a call and
  the operators of \<open>muldiv\<close>, \<open>addsub\<close> and \<open>assign\<close>.
\<close>

definition continues_expr :: "TokenType \<Rightarrow> bool" where
  "continues_expr tt \<longleftrightarrow>
     tt \<in> {TokenType_lparen, TokenType_multiply, TokenType_divide, TokenType_plus,
           TokenType_minus, TokenType_assign}"

section \<open>Unfolding\<close>

lemmas parser_defs =
  Parser_new_def branch_def accept_def accept_or_def current_token_def atom_def number_def
  parse_identifier_def assign_fold_def paren_close_def fail_at_current_def add_error_def

lemmas stmt_defs =
  simple_type_def reference_type_def array_type_def parse_type_def expr_stmt_def
  return_stmt_close_def return_stmt_def block_def parse_def

lemma stoi_digit_examples:
  "stoi ''1'' = Inr 1" "stoi ''2'' = Inr 2" "stoi ''3'' = Inr 3"
  by (simp_all add: stoi_def isspace_def isdigit_def digit_value_def)

section \<open>The top-level block\<close>

lemma block_loop_true:
  "block_loop n dflt block_start statements p = Return_true r p' \<Longrightarrow>
     errors p' = [] \<and> (\<exists>b s. r = (Some (Block b s), b))"
proof (induction n arbitrary: block_start statements p)
  case 0
  then show ?case by simp
next
  case (Suc n)
  show ?case
  proof (cases "scope n dflt p")
    case (Return_true a p1)
    obtain statement start where a: "a = (statement, start)" by (cases a)
    from Suc.prems Return_true a
    have "block_loop n dflt start (statements @ [statement]) p1 = Return_true r p'"
      by (simp add: branch_def)
    then show ?thesis by (rule Suc.IH)
  next
    case (Return_false p1)
    with Suc.prems show ?thesis
      by (auto simp: branch_def split: if_splits)
  qed (use Suc.prems in \<open>simp_all add: branch_def\<close>)
qed

lemma block_loop_false:
  "block_loop n dflt block_start statements p = Return_false p' \<Longrightarrow> errors p' \<noteq> []"
proof (induction n arbitrary: block_start statements p)
  case 0
  then show ?case by simp
next
  case (Suc n)
  show ?case
  proof (cases "scope n dflt p")
    case (Return_true a p1)
    obtain statement start where a: "a = (statement, start)" by (cases a)
    from Suc.prems Return_true a
    have "block_loop n dflt start (statements @ [statement]) p1 = Return_false p'"
      by (simp add: branch_def)
    then show ?thesis by (rule Suc.IH)
  next
    case (Return_false p1)
    with Suc.prems show ?thesis
      by (auto simp: branch_def split: if_splits)
  qed (use Suc.prems in \<open>simp_all add: branch_def\<close>)
qed

lemma parse_true_with_tokens_left:
  "\<exists>d m ts out q.
     parse m d (Parser_new ts) = Return_true out q \<and> token_iter q < length (input q)"
proof -
  let ?ts = "[mk_Token TokenType_int ''int'' 1, mk_Token TokenType_identifier ''x'' 1,
              mk_Token TokenType_semicolon '';'' 1, mk_Token TokenType_rparen '')'' 1]"
  let ?out = "Some (Block (mk_Token TokenType_int ''int'' 1)
                [Some (VariableDeclaration (mk_Token TokenType_int ''int'' 1)
                   (Some (SimpleType (mk_Token TokenType_int ''int'' 1) ''int'' False)) ''x''
                   None)])"
  let ?q = "\<lparr>input = ?ts, token_iter = 3, errors = []\<rparr>"
  have "parse 20 (mk_Token TokenType_dot [] 0) (Parser_new ?ts) = Return_true ?out ?q"
    by (simp add: numeral_eq_Suc parser_defs stmt_defs)
  moreover have "token_iter ?q < length (input ?q)"
    by simp
  ultimately show ?thesis by blast
qed

text \<open>
  C1, as amended. Whenever \<open>parse\<close> returns, it returns \<open>true\<close> exactly when no error has
  been added by the time the loop of \<open>block\<close> has stopped, and the output is then a
  \<open>Block\<close>. That the token sequence has been consumed is not required: there are inputs
  on which \<open>parse\<close> returns \<open>true\<close> with tokens left.
\<close>

theorem parse_true_iff_no_errors:
  "(parse n dflt p = Return_true output p' \<longrightarrow>
      errors p' = [] \<and> (\<exists>block_start statements. output = Some (Block block_start statements)))
   \<and> (parse n dflt p = Return_false p' \<longrightarrow> errors p' \<noteq> [])
   \<and> (\<exists>d m ts out q.
        parse m d (Parser_new ts) = Return_true out q \<and> token_iter q < length (input q))"
proof (intro conjI impI)
  assume "parse n dflt p = Return_true output p'"
  then obtain r where r: "block_loop n dflt dflt [] p = Return_true r p'" and o: "output = fst r"
    by (auto simp: parse_def block_def branch_def split: result.splits)
  from block_loop_true [OF r] o
  show "errors p' = []" and "\<exists>block_start statements. output = Some (Block block_start statements)"
    by auto
next
  assume "parse n dflt p = Return_false p'"
  then have "block_loop n dflt dflt [] p = Return_false p'"
    by (auto simp: parse_def block_def branch_def split: result.splits)
  then show "errors p' \<noteq> []" by (rule block_loop_false)
next
  show "\<exists>d m ts out q.
          parse m d (Parser_new ts) = Return_true out q \<and> token_iter q < length (input q)"
    by (rule parse_true_with_tokens_left)
qed

text \<open>
  C1, as stated, fails on \<open>int x ; ) int y ;\<close>: \<open>parse\<close> returns \<open>true\<close> with the block of
  the first declaration and the iterator at \<open>)\<close>, four tokens before the end.
\<close>

theorem parse_unconsumed_counterexample:
  "parse 20 (mk_Token TokenType_dot [] 0)
     (Parser_new
        [mk_Token TokenType_int ''int'' 1, mk_Token TokenType_identifier ''x'' 1,
         mk_Token TokenType_semicolon '';'' 1, mk_Token TokenType_rparen '')'' 1,
         mk_Token TokenType_int ''int'' 2, mk_Token TokenType_identifier ''y'' 2,
         mk_Token TokenType_semicolon '';'' 2])
   = Return_true
       (Some (Block (mk_Token TokenType_int ''int'' 1)
          [Some (VariableDeclaration (mk_Token TokenType_int ''int'' 1)
             (Some (SimpleType (mk_Token TokenType_int ''int'' 1) ''int'' False)) ''x'' None)]))
       \<lparr>input =
          [mk_Token TokenType_int ''int'' 1, mk_Token TokenType_identifier ''x'' 1,
           mk_Token TokenType_semicolon '';'' 1, mk_Token TokenType_rparen '')'' 1,
           mk_Token TokenType_int ''int'' 2, mk_Token TokenType_identifier ''y'' 2,
           mk_Token TokenType_semicolon '';'' 2],
        token_iter = 3, errors = []\<rparr>
   \<and> (3::nat) <
       length
         [mk_Token TokenType_int ''int'' 1, mk_Token TokenType_identifier ''x'' 1,
          mk_Token TokenType_semicolon '';'' 1, mk_Token TokenType_rparen '')'' 1,
          mk_Token TokenType_int ''int'' 2, mk_Token TokenType_identifier ''y'' 2,
          mk_Token TokenType_semicolon '';'' 2]"
  by (simp add: numeral_eq_Suc parser_defs stmt_defs)

theorem parse_true_iff_no_errors_witness:
  "(parse 20 (mk_Token TokenType_dot [] 0)
      (Parser_new
         [mk_Token TokenType_int ''int'' 1, mk_Token TokenType_identifier ''x'' 1,
          mk_Token TokenType_semicolon '';'' 1, mk_Token TokenType_dot ''.'' 2])
    = Return_true
        (Some (Block (mk_Token TokenType_int ''int'' 1)
           [Some (VariableDeclaration (mk_Token TokenType_int ''int'' 1)
              (Some (SimpleType (mk_Token TokenType_int ''int'' 1) ''int'' False)) ''x''
              None)]))
        \<lparr>input =
           [mk_Token TokenType_int ''int'' 1, mk_Token TokenType_identifier ''x'' 1,
            mk_Token TokenType_semicolon '';'' 1, mk_Token TokenType_dot ''.'' 2],
         token_iter = 3, errors = []\<rparr>
    \<and> errors
         \<lparr>input =
            [mk_Token TokenType_int ''int'' 1, mk_Token TokenType_identifier ''x'' 1,
             mk_Token TokenType_semicolon '';'' 1, mk_Token TokenType_dot ''.'' 2],
          token_iter = 3, errors = []\<rparr> = [])
   \<and> (parse 20 (mk_Token TokenType_dot [] 0)
        (Parser_new
           [mk_Token TokenType_int ''int'' 1, mk_Token TokenType_identifier ''x'' 1,
            mk_Token TokenType_dot ''.'' 2])
      = Return_false
          \<lparr>input =
             [mk_Token TokenType_int ''int'' 1, mk_Token TokenType_identifier ''x'' 1,
              mk_Token TokenType_dot ''.'' 2],
           token_iter = 2,
           errors = [Error (mk_Token TokenType_dot ''.'' 2) (expected ''identifier'' ''.'')]\<rparr>
      \<and> errors
           \<lparr>input =
              [mk_Token TokenType_int ''int'' 1, mk_Token TokenType_identifier ''x'' 1,
               mk_Token TokenType_dot ''.'' 2],
            token_iter = 2,
            errors = [Error (mk_Token TokenType_dot ''.'' 2) (expected ''identifier'' ''.'')]\<rparr>
         \<noteq> [])"
proof -
  let ?d = "mk_Token TokenType_dot [] 0"
  let ?p1 = "Parser_new
         [mk_Token TokenType_int ''int'' 1, mk_Token TokenType_identifier ''x'' 1,
          mk_Token TokenType_semicolon '';'' 1, mk_Token TokenType_dot ''.'' 2]"
  let ?q1 = "\<lparr>input =
           [mk_Token TokenType_int ''int'' 1, mk_Token TokenType_identifier ''x'' 1,
            mk_Token TokenType_semicolon '';'' 1, mk_Token TokenType_dot ''.'' 2],
         token_iter = 3, errors = []\<rparr>"
  let ?o1 = "Some (Block (mk_Token TokenType_int ''int'' 1)
           [Some (VariableDeclaration (mk_Token TokenType_int ''int'' 1)
              (Some (SimpleType (mk_Token TokenType_int ''int'' 1) ''int'' False)) ''x''
              None)])"
  let ?p2 = "Parser_new
           [mk_Token TokenType_int ''int'' 1, mk_Token TokenType_identifier ''x'' 1,
            mk_Token TokenType_dot ''.'' 2]"
  let ?q2 = "\<lparr>input =
             [mk_Token TokenType_int ''int'' 1, mk_Token TokenType_identifier ''x'' 1,
              mk_Token TokenType_dot ''.'' 2],
           token_iter = 2,
           errors = [Error (mk_Token TokenType_dot ''.'' 2) (expected ''identifier'' ''.'')]\<rparr>"
  have t: "parse 20 ?d ?p1 = Return_true ?o1 ?q1"
    by (simp add: numeral_eq_Suc parser_defs stmt_defs)
  have f: "parse 20 ?d ?p2 = Return_false ?q2"
    by (simp add: numeral_eq_Suc parser_defs stmt_defs)
  from t parse_true_iff_no_errors [of 20 ?d ?p1 ?o1 ?q1] have "errors ?q1 = []"
    by blast
  moreover from f parse_true_iff_no_errors [of 20 ?d ?p2 ?o1 ?q2] have "errors ?q2 \<noteq> []"
    by blast
  ultimately show ?thesis using t f by blast
qed

section \<open>Code generation of operations\<close>

text \<open>
  C2. What \<open>BinaryOperation::code_gen\<close> does for an operator other than \<open>+\<close>, \<open>-\<close>, \<open>*\<close>
  and \<open>/\<close> whose operands generate code: it returns the constant of \<open>getFalse\<close> and creates
  no instruction of its own; there is no fault and nothing is thrown.
\<close>

theorem BinaryOperation_code_gen_other_operator:
  assumes "op \<noteq> TokenType_plus" and "op \<noteq> TokenType_minus"
    and "op \<noteq> TokenType_multiply" and "op \<noteq> TokenType_divide"
    and "code_gen_ptr ident lhs b = Inr (lhs_value, b1)"
    and "code_gen_ptr ident rhs b1 = Inr (rhs_value, b2)"
  shows "code_gen ident (BinaryOperation token op lhs rhs) b = Inr (getFalse, b2)"
  using assms by simp

theorem BinaryOperation_code_gen_other_operator_witness:
  "code_gen (\<lambda>token name b. Inr (Opaque 0, b))
     (BinaryOperation (mk_Token TokenType_dec_integer ''1'' 1) TokenType_assign
        (Some (Integer32 (mk_Token TokenType_dec_integer ''1'' 1) 1))
        (Some (Integer32 (mk_Token TokenType_dec_integer ''2'' 1) 2))) []
   = Inr (getFalse, [])"
proof -
  have l: "code_gen_ptr (\<lambda>token name b. Inr (Opaque 0, b))
             (Some (Integer32 (mk_Token TokenType_dec_integer ''1'' 1) 1)) []
           = Inr (getInt32 1, [])"
    by simp
  have r: "code_gen_ptr (\<lambda>token name b. Inr (Opaque 0, b))
             (Some (Integer32 (mk_Token TokenType_dec_integer ''2'' 1) 2)) []
           = Inr (getInt32 2, [])"
    by simp
  show ?thesis
    by (rule BinaryOperation_code_gen_other_operator [OF _ _ _ _ l r]) simp_all
qed

text \<open>
  C7. When the operand generates the value \<open>rhs_value\<close>, \<open>UnaryOperation::code_gen\<close> with the
  operator \<open>+\<close> creates one instruction, the multiplication of the constant 1 and
  \<open>rhs_value\<close>, and returns it; with the operator \<open>-\<close> the multiplication of the constant -1
  and \<open>rhs_value\<close>.
\<close>

theorem UnaryOperation_code_gen_multiplies:
  assumes "code_gen_ptr ident rhs b = Inr (rhs_value, b1)"
  shows "code_gen ident (UnaryOperation token TokenType_plus rhs) b
           = Inr (CreateMul (getInt32 1) rhs_value, b1 @ [CreateMul (getInt32 1) rhs_value])
         \<and> code_gen ident (UnaryOperation token TokenType_minus rhs) b
           = Inr (CreateMul (getInt32 (- 1)) rhs_value,
                  b1 @ [CreateMul (getInt32 (- 1)) rhs_value])"
  using assms by (simp add: create_def)

theorem UnaryOperation_code_gen_multiplies_witness:
  "code_gen (\<lambda>token name b. Inr (Opaque 0, b))
     (UnaryOperation (mk_Token TokenType_plus ''+'' 1) TokenType_plus
        (Some (Integer32 (mk_Token TokenType_dec_integer ''5'' 1) 5))) []
     = Inr (CreateMul (getInt32 1) (getInt32 5), [CreateMul (getInt32 1) (getInt32 5)])
   \<and> code_gen (\<lambda>token name b. Inr (Opaque 0, b))
     (UnaryOperation (mk_Token TokenType_plus ''+'' 1) TokenType_minus
        (Some (Integer32 (mk_Token TokenType_dec_integer ''5'' 1) 5))) []
     = Inr (CreateMul (getInt32 (- 1)) (getInt32 5), [CreateMul (getInt32 (- 1)) (getInt32 5)])"
proof -
  have r: "code_gen_ptr (\<lambda>token name b. Inr (Opaque 0, b))
             (Some (Integer32 (mk_Token TokenType_dec_integer ''5'' 1) 5)) []
           = Inr (getInt32 5, [])"
    by simp
  from UnaryOperation_code_gen_multiplies [OF r, of "mk_Token TokenType_plus ''+'' 1"]
  show ?thesis by simp
qed

section \<open>The return statement\<close>

text \<open>
  C10. \<open>ReturnStatement::code_gen\<close> and \<open>ReturnStatement::tree_gen\<close> dereference
  \<open>return_expr\<close> whatever it is: on a null \<open>return_expr\<close> both are a null pointer
  dereference, on a non-null one they are the operation of the expression followed by the
  return instruction, respectively the heading followed by the rendering of the
  expression. For \<open>return ;\<close> the parser returns \<open>true\<close> and builds the \<open>ReturnStatement\<close>
  with a null \<open>return_expr\<close>.
\<close>

theorem ReturnStatement_null_return_expr:
  assumes "type r = TokenType_return" and "type s = TokenType_semicolon"
  shows "return_stmt (20 + k) (Parser_new (r # s # rest))
           = Return_true (Some (ReturnStatement r None), r)
               \<lparr>input = r # s # rest, token_iter = 2, errors = []\<rparr>
         \<and> ReturnStatement_code_gen ident None b = Inl NullPointerDereference
         \<and> ReturnStatement_tree_gen X None depth = Inl NullPointerDereference
         \<and> ReturnStatement_code_gen ident (Some e) b
             = (case code_gen ident e b of
                  Inl x \<Rightarrow> Inl x
                | Inr (v, b1) \<Rightarrow> Inr (CreateRet v, b1 @ [CreateRet v]))
         \<and> ReturnStatement_tree_gen X (Some e) depth
             = (case tree_gen X e (depth + 1) of
                  Inl x \<Rightarrow> Inl x
                | Inr t \<Rightarrow> Inr (tree_prefix X depth @ ''ReturnStatement:'' @ newline @ t))"
proof (intro conjI)
  show "return_stmt (20 + k) (Parser_new (r # s # rest))
          = Return_true (Some (ReturnStatement r None), r)
              \<lparr>input = r # s # rest, token_iter = 2, errors = []\<rparr>"
    using assms by (simp add: numeral_eq_Suc parser_defs stmt_defs)
qed (simp_all add: ReturnStatement_code_gen_def ReturnStatement_tree_gen_def create_def
    split: sum.splits)

theorem ReturnStatement_null_return_expr_witness:
  "return_stmt 20
     (Parser_new [mk_Token TokenType_return ''return'' 1, mk_Token TokenType_semicolon '';'' 1])
     = Return_true
         (Some (ReturnStatement (mk_Token TokenType_return ''return'' 1) None),
          mk_Token TokenType_return ''return'' 1)
         \<lparr>input = [mk_Token TokenType_return ''return'' 1, mk_Token TokenType_semicolon '';'' 1],
          token_iter = 2, errors = []\<rparr>
   \<and> ReturnStatement_code_gen (\<lambda>token name b. Inr (Opaque 0, b)) None []
       = Inl NullPointerDereference
   \<and> ReturnStatement_tree_gen
       \<lparr>tree_prefix = (\<lambda>depth. replicate depth CHR '' ''), token_map = (\<lambda>op. None),
        Identifier_tree_gen = (\<lambda>token name depth. Inr name)\<rparr> None 0
       = Inl NullPointerDereference"
  using ReturnStatement_null_return_expr
    [of "mk_Token TokenType_return ''return'' 1" "mk_Token TokenType_semicolon '';'' 1" 0 "[]"
       "\<lambda>token name b. Inr (Opaque 0, b)" "[]"
       "\<lparr>tree_prefix = (\<lambda>depth. replicate depth CHR '' ''), token_map = (\<lambda>op. None),
         Identifier_tree_gen = (\<lambda>token name depth. Inr name)\<rparr>" 0
       "Integer32 (mk_Token TokenType_dec_integer ''5'' 1) 5"]
  by simp

section \<open>Errors\<close>

text \<open>
  C8. On \<open>int x = ;\<close> (whatever follows) \<open>parse\<close> returns \<open>false\<close>; the error set is then
  the one error that an expression was expected, and its token is the \<open>;\<close>, the token
  right after \<open>=\<close>.
\<close>

theorem parse_missing_initializer:
  assumes "type t_int = TokenType_int" and "type t_x = TokenType_identifier"
    and "type t_assign = TokenType_assign" and "type t_semicolon = TokenType_semicolon"
  shows "parse (20 + k) dflt (Parser_new (t_int # t_x # t_assign # t_semicolon # rest))
           = Return_false
               \<lparr>input = t_int # t_x # t_assign # t_semicolon # rest, token_iter = 3,
                errors = [Error t_semicolon (expected ''expression'' (data t_semicolon))]\<rparr>
         \<and> (t_int # t_x # t_assign # t_semicolon # rest) ! 3 = t_semicolon"
  using assms by (simp add: numeral_eq_Suc parser_defs stmt_defs)

theorem parse_missing_initializer_witness:
  "parse 20 (mk_Token TokenType_dot [] 0)
     (Parser_new
        [mk_Token TokenType_int ''int'' 1, mk_Token TokenType_identifier ''x'' 1,
         mk_Token TokenType_assign ''='' 1, mk_Token TokenType_semicolon '';'' 1])
   = Return_false
       \<lparr>input =
          [mk_Token TokenType_int ''int'' 1, mk_Token TokenType_identifier ''x'' 1,
           mk_Token TokenType_assign ''='' 1, mk_Token TokenType_semicolon '';'' 1],
        token_iter = 3,
        errors = [Error (mk_Token TokenType_semicolon '';'' 1)
                    (expected ''expression'' '';'')]\<rparr>"
  using parse_missing_initializer
    [of "mk_Token TokenType_int ''int'' 1" "mk_Token TokenType_identifier ''x'' 1"
       "mk_Token TokenType_assign ''='' 1" "mk_Token TokenType_semicolon '';'' 1" 0
       "mk_Token TokenType_dot [] 0" "[]"]
  by simp

section \<open>Expressions: associativity and precedence\<close>

text \<open>
  C4. For identifier tokens \<open>a\<close>, \<open>b\<close>, \<open>c\<close>, the tokens \<open>a = b = c\<close>, followed by a token
  with which the expression does not go on, are parsed by \<open>expr\<close> into
  \<open>BinaryOperation(=, Identifier(a), BinaryOperation(=, Identifier(b), Identifier(c)))\<close>, with
  the iterator left after \<open>c\<close> and no error.
\<close>

theorem assign_right_associative:
  assumes "type a = TokenType_identifier" and "type b = TokenType_identifier"
    and "type c = TokenType_identifier"
    and "type eq1 = TokenType_assign" and "type eq2 = TokenType_assign"
    and "\<not> continues_expr (type t)"
  shows "expr (20 + k) (Parser_new (a # eq1 # b # eq2 # c # t # rest))
           = Return_true
               (Some (BinaryOperation a TokenType_assign
                  (Some (Identifier a (data a)))
                  (Some (BinaryOperation a TokenType_assign
                     (Some (Identifier b (data b)))
                     (Some (Identifier c (data c)))))),
                a)
               \<lparr>input = a # eq1 # b # eq2 # c # t # rest, token_iter = 5, errors = []\<rparr>"
  using assms by (simp add: numeral_eq_Suc parser_defs continues_expr_def)

theorem assign_right_associative_witness:
  "expr 20
     (Parser_new
        [mk_Token TokenType_identifier ''a'' 1, mk_Token TokenType_assign ''='' 1,
         mk_Token TokenType_identifier ''b'' 1, mk_Token TokenType_assign ''='' 1,
         mk_Token TokenType_identifier ''c'' 1, mk_Token TokenType_semicolon '';'' 1])
   = Return_true
       (Some (BinaryOperation (mk_Token TokenType_identifier ''a'' 1) TokenType_assign
          (Some (Identifier (mk_Token TokenType_identifier ''a'' 1) ''a''))
          (Some (BinaryOperation (mk_Token TokenType_identifier ''a'' 1) TokenType_assign
             (Some (Identifier (mk_Token TokenType_identifier ''b'' 1) ''b''))
             (Some (Identifier (mk_Token TokenType_identifier ''c'' 1) ''c''))))),
        mk_Token TokenType_identifier ''a'' 1)
       \<lparr>input =
          [mk_Token TokenType_identifier ''a'' 1, mk_Token TokenType_assign ''='' 1,
           mk_Token TokenType_identifier ''b'' 1, mk_Token TokenType_assign ''='' 1,
           mk_Token TokenType_identifier ''c'' 1, mk_Token TokenType_semicolon '';'' 1],
        token_iter = 5, errors = []\<rparr>"
  using assign_right_associative
    [of "mk_Token TokenType_identifier ''a'' 1" "mk_Token TokenType_identifier ''b'' 1"
       "mk_Token TokenType_identifier ''c'' 1" "mk_Token TokenType_assign ''='' 1"
       "mk_Token TokenType_assign ''='' 1" "mk_Token TokenType_semicolon '';'' 1" 0 "[]"]
  by (simp add: continues_expr_def)

text \<open>
  C5. For integer literals \<open>t1\<close>, \<open>t2\<close>, \<open>t3\<close> of values \<open>v1\<close>, \<open>v2\<close>, \<open>v3\<close>, the tokens
  \<open>t1 + t2 * t3\<close>, followed by a token with which the expression does not go on, are parsed
  by \<open>expr\<close> into \<open>BinaryOperation(+, v1, BinaryOperation(*, v2, v3))\<close>.
\<close>

theorem multiply_binds_tighter_than_plus:
  assumes "type t1 = TokenType_dec_integer" and "stoi (data t1) = Inr v1"
    and "type t2 = TokenType_dec_integer" and "stoi (data t2) = Inr v2"
    and "type t3 = TokenType_dec_integer" and "stoi (data t3) = Inr v3"
    and "type plus_token = TokenType_plus" and "type multiply_token = TokenType_multiply"
    and "\<not> continues_expr (type t)"
  shows "expr (20 + k) (Parser_new (t1 # plus_token # t2 # multiply_token # t3 # t # rest))
           = Return_true
               (Some (BinaryOperation t1 TokenType_plus
                  (Some (Integer32 t1 (word_of_int v1)))
                  (Some (BinaryOperation t2 TokenType_multiply
                     (Some (Integer32 t2 (word_of_int v2)))
                     (Some (Integer32 t3 (word_of_int v3)))))),
                t1)
               \<lparr>input = t1 # plus_token # t2 # multiply_token # t3 # t # rest, token_iter = 5,
                errors = []\<rparr>"
  using assms by (simp add: numeral_eq_Suc parser_defs continues_expr_def)

theorem multiply_binds_tighter_than_plus_witness:
  "expr 20
     (Parser_new
        [mk_Token TokenType_dec_integer ''1'' 1, mk_Token TokenType_plus ''+'' 1,
         mk_Token TokenType_dec_integer ''2'' 1, mk_Token TokenType_multiply ''*'' 1,
         mk_Token TokenType_dec_integer ''3'' 1, mk_Token TokenType_semicolon '';'' 1])
   = Return_true
       (Some (BinaryOperation (mk_Token TokenType_dec_integer ''1'' 1) TokenType_plus
          (Some (Integer32 (mk_Token TokenType_dec_integer ''1'' 1) 1))
          (Some (BinaryOperation (mk_Token TokenType_dec_integer ''2'' 1) TokenType_multiply
             (Some (Integer32 (mk_Token TokenType_dec_integer ''2'' 1) 2))
             (Some (Integer32 (mk_Token TokenType_dec_integer ''3'' 1) 3))))),
        mk_Token TokenType_dec_integer ''1'' 1)
       \<lparr>input =
          [mk_Token TokenType_dec_integer ''1'' 1, mk_Token TokenType_plus ''+'' 1,
           mk_Token TokenType_dec_integer ''2'' 1, mk_Token TokenType_multiply ''*'' 1,
           mk_Token TokenType_dec_integer ''3'' 1, mk_Token TokenType_semicolon '';'' 1],
        token_iter = 5, errors = []\<rparr>"
  using multiply_binds_tighter_than_plus
    [of "mk_Token TokenType_dec_integer ''1'' 1" 1 "mk_Token TokenType_dec_integer ''2'' 1" 2
       "mk_Token TokenType_dec_integer ''3'' 1" 3 "mk_Token TokenType_plus ''+'' 1"
       "mk_Token TokenType_multiply ''*'' 1" "mk_Token TokenType_semicolon '';'' 1" 0 "[]"]
  by (simp add: continues_expr_def stoi_digit_examples)

text \<open>
  C6. For integer literals \<open>t1\<close>, \<open>t2\<close>, \<open>t3\<close> of values \<open>v1\<close>, \<open>v2\<close>, \<open>v3\<close> and two
  operators \<open>o1\<close>, \<open>o2\<close> that are both among \<open>+\<close>, \<open>-\<close> or both among \<open>*\<close>, \<open>/\<close>, the tokens
  \<open>t1 o1 t2 o2 t3\<close>, followed by a token with which the expression does not go on, are
  parsed by \<open>expr\<close> into \<open>BinaryOperation(o2, BinaryOperation(o1, v1, v2), v3)\<close>; so
  \<open>1 - 2 - 3\<close> into \<open>BinaryOperation(-, BinaryOperation(-, 1, 2), 3)\<close>.
\<close>

theorem addsub_muldiv_left_associative:
  assumes "type t1 = TokenType_dec_integer" and "stoi (data t1) = Inr v1"
    and "type t2 = TokenType_dec_integer" and "stoi (data t2) = Inr v2"
    and "type t3 = TokenType_dec_integer" and "stoi (data t3) = Inr v3"
    and "type o1 \<in> {TokenType_plus, TokenType_minus} \<and> type o2 \<in> {TokenType_plus, TokenType_minus}
         \<or> type o1 \<in> {TokenType_multiply, TokenType_divide}
           \<and> type o2 \<in> {TokenType_multiply, TokenType_divide}"
    and "\<not> continues_expr (type t)"
  shows "expr (20 + k) (Parser_new (t1 # o1 # t2 # o2 # t3 # t # rest))
           = Return_true
               (Some (BinaryOperation t1 (type o2)
                  (Some (BinaryOperation t1 (type o1)
                     (Some (Integer32 t1 (word_of_int v1)))
                     (Some (Integer32 t2 (word_of_int v2)))))
                  (Some (Integer32 t3 (word_of_int v3)))),
                t1)
               \<lparr>input = t1 # o1 # t2 # o2 # t3 # t # rest, token_iter = 5, errors = []\<rparr>"
proof -
  note operands = assms(1-6)
  have t: "type t \<noteq> TokenType_lparen" "type t \<noteq> TokenType_multiply"
    "type t \<noteq> TokenType_divide" "type t \<noteq> TokenType_plus"
    "type t \<noteq> TokenType_minus" "type t \<noteq> TokenType_assign"
    using assms(8) by (simp_all add: continues_expr_def)
  from assms(7) consider
      (plus_plus) "type o1 = TokenType_plus" "type o2 = TokenType_plus"
    | (plus_minus) "type o1 = TokenType_plus" "type o2 = TokenType_minus"
    | (minus_plus) "type o1 = TokenType_minus" "type o2 = TokenType_plus"
    | (minus_minus) "type o1 = TokenType_minus" "type o2 = TokenType_minus"
    | (multiply_multiply) "type o1 = TokenType_multiply" "type o2 = TokenType_multiply"
    | (multiply_divide) "type o1 = TokenType_multiply" "type o2 = TokenType_divide"
    | (divide_multiply) "type o1 = TokenType_divide" "type o2 = TokenType_multiply"
    | (divide_divide) "type o1 = TokenType_divide" "type o2 = TokenType_divide"
    by blast
  then show ?thesis
  proof cases
    case plus_plus
    with operands t show ?thesis by (simp add: numeral_eq_Suc parser_defs)
  next
    case plus_minus
    with operands t show ?thesis by (simp add: numeral_eq_Suc parser_defs)
  next
    case minus_plus
    with operands t show ?thesis by (simp add: numeral_eq_Suc parser_defs)
  next
    case minus_minus
    with operands t show ?thesis by (simp add: numeral_eq_Suc parser_defs)
  next
    case multiply_multiply
    with operands t show ?thesis by (simp add: numeral_eq_Suc parser_defs)
  next
    case multiply_divide
    with operands t show ?thesis by (simp add: numeral_eq_Suc parser_defs)
  next
    case divide_multiply
    with operands t show ?thesis by (simp add: numeral_eq_Suc parser_defs)
  next
    case divide_divide
    with operands t show ?thesis by (simp add: numeral_eq_Suc parser_defs)
  qed
qed

theorem addsub_muldiv_left_associative_witness:
  "expr 20
     (Parser_new
        [mk_Token TokenType_dec_integer ''1'' 1, mk_Token TokenType_minus ''-'' 1,
         mk_Token TokenType_dec_integer ''2'' 1, mk_Token TokenType_minus ''-'' 1,
         mk_Token TokenType_dec_integer ''3'' 1, mk_Token TokenType_semicolon '';'' 1])
   = Return_true
       (Some (BinaryOperation (mk_Token TokenType_dec_integer ''1'' 1) TokenType_minus
          (Some (BinaryOperation (mk_Token TokenType_dec_integer ''1'' 1) TokenType_minus
             (Some (Integer32 (mk_Token TokenType_dec_integer ''1'' 1) 1))
             (Some (Integer32 (mk_Token TokenType_dec_integer ''2'' 1) 2))))
          (Some (Integer32 (mk_Token TokenType_dec_integer ''3'' 1) 3))),
        mk_Token TokenType_dec_integer ''1'' 1)
       \<lparr>input =
          [mk_Token TokenType_dec_integer ''1'' 1, mk_Token TokenType_minus ''-'' 1,
           mk_Token TokenType_dec_integer ''2'' 1, mk_Token TokenType_minus ''-'' 1,
           mk_Token TokenType_dec_integer ''3'' 1, mk_Token TokenType_semicolon '';'' 1],
        token_iter = 5, errors = []\<rparr>"
  using addsub_muldiv_left_associative
    [of "mk_Token TokenType_dec_integer ''1'' 1" 1 "mk_Token TokenType_dec_integer ''2'' 1" 2
       "mk_Token TokenType_dec_integer ''3'' 1" 3 "mk_Token TokenType_minus ''-'' 1"
       "mk_Token TokenType_minus ''-'' 1" "mk_Token TokenType_semicolon '';'' 1" 0 "[]"]
  by (simp add: continues_expr_def stoi_digit_examples)

section \<open>Null children\<close>

text \<open>
  C9. On \<open>( )\<close> \<open>paren\<close> returns \<open>true\<close> and leaves its output null, the result of the call
  of \<open>expr\<close> at \<open>)\<close> being ignored. So \<open>( ) ;\<close> is an \<open>ExpressionStatement\<close> with a null
  expression, a whole input \<open>( ) ;\<close> parses successfully into a block that holds it, and
  \<open>- ( )\<close> is a \<open>UnaryOperation\<close> with a null operand, on which \<open>code_gen\<close> dereferences
  the null pointer.
\<close>

theorem paren_empty_returns_true_with_null:
  assumes "type l = TokenType_lparen" and "type r = TokenType_rparen"
    and "type s = TokenType_semicolon" and "type m = TokenType_minus"
    and "\<not> starts_scope (type t)"
  shows "paren (20 + k) (Parser_new (l # r # rest))
           = Return_true (None, l) \<lparr>input = l # r # rest, token_iter = 2, errors = []\<rparr>
         \<and> expr_stmt (20 + k) (Parser_new (l # r # s # rest))
           = Return_true (Some (ExpressionStatement l None), l)
               \<lparr>input = l # r # s # rest, token_iter = 3, errors = []\<rparr>
         \<and> parse (20 + k) dflt (Parser_new (l # r # s # t # rest))
           = Return_true (Some (Block l [Some (ExpressionStatement l None)]))
               \<lparr>input = l # r # s # t # rest, token_iter = 3, errors = []\<rparr>
         \<and> expr (20 + k) (Parser_new (m # l # r # s # rest))
           = Return_true (Some (UnaryOperation m TokenType_minus None), m)
               \<lparr>input = m # l # r # s # rest, token_iter = 3, errors = []\<rparr>
         \<and> code_gen ident (UnaryOperation m TokenType_minus None) b
           = Inl NullPointerDereference"
proof (intro conjI)
  show "parse (20 + k) dflt (Parser_new (l # r # s # t # rest))
          = Return_true (Some (Block l [Some (ExpressionStatement l None)]))
              \<lparr>input = l # r # s # t # rest, token_iter = 3, errors = []\<rparr>"
    using assms by (simp add: numeral_eq_Suc parser_defs stmt_defs starts_scope_def)
qed (use assms in \<open>simp_all add: numeral_eq_Suc parser_defs stmt_defs\<close>)

theorem paren_empty_returns_true_with_null_witness:
  "paren 20 (Parser_new [mk_Token TokenType_lparen ''('' 1, mk_Token TokenType_rparen '')'' 1])
     = Return_true (None, mk_Token TokenType_lparen ''('' 1)
         \<lparr>input = [mk_Token TokenType_lparen ''('' 1, mk_Token TokenType_rparen '')'' 1],
          token_iter = 2, errors = []\<rparr>
   \<and> parse 20 (mk_Token TokenType_dot [] 0)
       (Parser_new
          [mk_Token TokenType_lparen ''('' 1, mk_Token TokenType_rparen '')'' 1,
           mk_Token TokenType_semicolon '';'' 1, mk_Token TokenType_rbrace ''}'' 2])
     = Return_true
         (Some (Block (mk_Token TokenType_lparen ''('' 1)
            [Some (ExpressionStatement (mk_Token TokenType_lparen ''('' 1) None)]))
         \<lparr>input =
            [mk_Token TokenType_lparen ''('' 1, mk_Token TokenType_rparen '')'' 1,
             mk_Token TokenType_semicolon '';'' 1, mk_Token TokenType_rbrace ''}'' 2],
          token_iter = 3, errors = []\<rparr>"
proof -
  have h: "\<not> starts_scope (type (mk_Token TokenType_rbrace ''}'' 2))"
    by (simp add: starts_scope_def)
  from paren_empty_returns_true_with_null
    [of "mk_Token TokenType_lparen ''('' 1" "mk_Token TokenType_rparen '')'' 1"
       "mk_Token TokenType_semicolon '';'' 1" "mk_Token TokenType_minus ''-'' 1"
       "mk_Token TokenType_rbrace ''}'' 2" 0 "[]" "mk_Token TokenType_dot [] 0"
       "\<lambda>token name b. Inr (Opaque 0, b)" "[]", OF _ _ _ _ h]
  show ?thesis by simp
qed

section \<open>Start tokens\<close>

text \<open>
  C3. What the parser stores as the token of two nodes that do not begin where their
  parent begins. In \<open>a = b = c\<close> (tokens on the lines 1 to 5) the inner \<open>BinaryOperation\<close>,
  built for \<open>b = c\<close>, holds the token \<open>a\<close> of line 1, not the token \<open>b\<close> of line 3. In
  \<open>int f ( int a , int b ) { }\<close> both parameters hold the \<open>int\<close> of line 1, with which the
  function declaration begins, not the \<open>int\<close> of their own type (lines 4 and 7).
\<close>

theorem start_token_of_inner_nodes:
  "expr 20
     (Parser_new
        [mk_Token TokenType_identifier ''a'' 1, mk_Token TokenType_assign ''='' 2,
         mk_Token TokenType_identifier ''b'' 3, mk_Token TokenType_assign ''='' 4,
         mk_Token TokenType_identifier ''c'' 5, mk_Token TokenType_semicolon '';'' 6])
   = Return_true
       (Some (BinaryOperation (mk_Token TokenType_identifier ''a'' 1) TokenType_assign
          (Some (Identifier (mk_Token TokenType_identifier ''a'' 1) ''a''))
          (Some (BinaryOperation (mk_Token TokenType_identifier ''a'' 1) TokenType_assign
             (Some (Identifier (mk_Token TokenType_identifier ''b'' 3) ''b''))
             (Some (Identifier (mk_Token TokenType_identifier ''c'' 5) ''c''))))),
        mk_Token TokenType_identifier ''a'' 1)
       \<lparr>input =
          [mk_Token TokenType_identifier ''a'' 1, mk_Token TokenType_assign ''='' 2,
           mk_Token TokenType_identifier ''b'' 3, mk_Token TokenType_assign ''='' 4,
           mk_Token TokenType_identifier ''c'' 5, mk_Token TokenType_semicolon '';'' 6],
        token_iter = 5, errors = []\<rparr>
   \<and> var_decl 20 (mk_Token TokenType_dot [] 0)
       (Parser_new
          [mk_Token TokenType_int ''int'' 1, mk_Token TokenType_identifier ''f'' 2,
           mk_Token TokenType_lparen ''('' 3, mk_Token TokenType_int ''int'' 4,
           mk_Token TokenType_identifier ''a'' 5, mk_Token TokenType_comma '','' 6,
           mk_Token TokenType_int ''int'' 7, mk_Token TokenType_identifier ''b'' 8,
           mk_Token TokenType_rparen '')'' 9, mk_Token TokenType_lbrace ''{'' 10,
           mk_Token TokenType_rbrace ''}'' 11])
     = Return_true
         (Some (FunctionDeclaration (mk_Token TokenType_int ''int'' 1)
            (Some (SimpleType (mk_Token TokenType_int ''int'' 1) ''int'' False)) ''f''
            [VariableDeclaration (mk_Token TokenType_int ''int'' 1)
               (Some (SimpleType (mk_Token TokenType_int ''int'' 4) ''int'' False)) ''a'' None,
             VariableDeclaration (mk_Token TokenType_int ''int'' 1)
               (Some (SimpleType (mk_Token TokenType_int ''int'' 7) ''int'' False)) ''b'' None]
            (Some (Scope (mk_Token TokenType_lbrace ''{'' 10) [] None))),
          None)
         \<lparr>input =
            [mk_Token TokenType_int ''int'' 1, mk_Token TokenType_identifier ''f'' 2,
             mk_Token TokenType_lparen ''('' 3, mk_Token TokenType_int ''int'' 4,
             mk_Token TokenType_identifier ''a'' 5, mk_Token TokenType_comma '','' 6,
             mk_Token TokenType_int ''int'' 7, mk_Token TokenType_identifier ''b'' 8,
             mk_Token TokenType_rparen '')'' 9, mk_Token TokenType_lbrace ''{'' 10,
             mk_Token TokenType_rbrace ''}'' 11],
          token_iter = 11, errors = []\<rparr>"
  by (simp add: numeral_eq_Suc parser_defs stmt_defs)

end
